theory Spec2Isabelle
  imports Complex_Main "HOL-Library.Sublist"
begin

section \<open>Values decoded from the verification script's output\<close>

text \<open>
  The verification script prints newline-delimited JSON. The parser works on what
  \<^verbatim>\<open>json.loads\<close> returns: \<^verbatim>\<open>None\<close>, \<^verbatim>\<open>bool\<close>, \<^verbatim>\<open>int\<close>, \<^verbatim>\<open>float\<close>, \<^verbatim>\<open>str\<close>,
  \<^verbatim>\<open>list\<close> or \<^verbatim>\<open>dict\<close>. A dict is kept as its items; a lookup takes the first item with
  the key. The literals \<^verbatim>\<open>NaN\<close> and \<^verbatim>\<open>Infinity\<close>, which \<^verbatim>\<open>json.loads\<close> accepts as an
  extension, are not represented: they behave as any non-zero float below.
\<close>

datatype json =
    JNull
  | JBool bool
  | JInt int
  | JFloat real
  | JStr string
  | JArr "json list"
  | JObj "(string \<times> json) list"

type_synonym pydict = "(string \<times> json) list"

text \<open>
  One line of \<^verbatim>\<open>stdout.strip().splitlines()\<close>, after \<^verbatim>\<open>line.strip()\<close>, classified by
  what the loop of \<^verbatim>\<open>VerificationOutputParser.parse\<close> meets first: the line is empty,
  or \<^verbatim>\<open>json.loads(line)\<close> raises \<^verbatim>\<open>JSONDecodeError\<close> (the line's text is kept), or it
  returns a value.
\<close>

datatype line = Blank | NotJson string | Decoded json

text \<open>The exceptions the body of the parser's \<^verbatim>\<open>try\<close> block can raise, by class.\<close>

datatype parse_exc =
    JSONDecodeError string
  | TypeError
  | AttributeError
  | KeyError
  | ValidationError

record StepVerification =
  step_number :: int
  description :: string
  verified :: bool

text \<open>
  \<^verbatim>\<open>CodeExecutionResult\<close>. \<^verbatim>\<open>stdout\<close> is held as its lines (see \<^typ>\<open>line\<close>);
  \<^verbatim>\<open>execution_time\<close> and the always-empty \<^verbatim>\<open>namespace\<close> are left out.
\<close>

record CodeExecutionResult =
  success :: bool
  stdout :: "line list"
  stderr :: string
  exception_type :: "string option"
  exception_message :: "string option"
  exception_traceback :: "string option"

section \<open>The contract parser (parser.py)\<close>

text \<open>\<^verbatim>\<open>key in data\<close>: key membership for a dict, element membership for a list, substring
  for a string, \<^verbatim>\<open>TypeError\<close> for every other value.\<close>

fun py_in :: "string \<Rightarrow> json \<Rightarrow> parse_exc + bool" where
  "py_in k (JObj kvs) = Inr (map_of kvs k \<noteq> None)"
| "py_in k (JArr xs) = Inr (JStr k \<in> set xs)"
| "py_in k (JStr s) = Inr (sublist k s)"
| "py_in k _ = Inl TypeError"

text \<open>\<^verbatim>\<open>data[key]\<close> with a string key: a list or a string raises \<^verbatim>\<open>TypeError\<close>.\<close>

fun py_getitem :: "json \<Rightarrow> string \<Rightarrow> parse_exc + json" where
  "py_getitem (JObj kvs) k = (case map_of kvs k of None \<Rightarrow> Inl KeyError | Some v \<Rightarrow> Inr v)"
| "py_getitem _ k = Inl TypeError"

text \<open>\<^verbatim>\<open>data.get(key, default)\<close>: only a dict has the method.\<close>

fun py_get :: "json \<Rightarrow> string \<Rightarrow> json \<Rightarrow> parse_exc + json" where
  "py_get (JObj kvs) k dflt = (case map_of kvs k of None \<Rightarrow> Inr dflt | Some v \<Rightarrow> Inr v)"
| "py_get _ k dflt = Inl AttributeError"

text \<open>\<^verbatim>\<open>isinstance(v, int)\<close> holds for a \<^verbatim>\<open>bool\<close> too: \<^verbatim>\<open>bool\<close> is a subclass of \<^verbatim>\<open>int\<close>.\<close>

fun isinstance_int :: "json \<Rightarrow> bool" where
  "isinstance_int (JInt n) = True"
| "isinstance_int (JBool b) = True"
| "isinstance_int _ = False"

fun isinstance_bool :: "json \<Rightarrow> bool" where
  "isinstance_bool (JBool b) = True"
| "isinstance_bool _ = False"

text \<open>
  The constructor \<^verbatim>\<open>StepVerification(step_number=.., description=.., verified=..)\<close> of
  the pydantic (v2) model, on the values the parser passes after its \<^verbatim>\<open>isinstance\<close>
  checks: an \<^verbatim>\<open>int\<close> field takes an int and turns a bool into 0 or 1, a \<^verbatim>\<open>str\<close> field
  takes a string only, a \<^verbatim>\<open>bool\<close> field takes a bool; anything else raises
  \<^verbatim>\<open>ValidationError\<close>.
\<close>

fun make_StepVerification :: "json \<Rightarrow> json \<Rightarrow> json \<Rightarrow> parse_exc + StepVerification" where
  "make_StepVerification (JInt n) (JStr d) (JBool b) =
     Inr \<lparr>step_number = n, description = d, verified = b\<rparr>"
| "make_StepVerification (JBool t) (JStr d) (JBool b) =
     Inr \<lparr>step_number = (if t then 1 else 0), description = d, verified = b\<rparr>"
| "make_StepVerification _ _ _ = Inl ValidationError"

text \<open>The body of the loop for one decoded line, on the accumulated steps and verdict.\<close>

definition handle_data ::
  "json \<Rightarrow> StepVerification list \<Rightarrow> pydict option \<Rightarrow>
     parse_exc + (StepVerification list \<times> pydict option)" where
  "handle_data data steps fv =
     (case py_in ''step'' data of
        Inl e \<Rightarrow> Inl e
      | Inr has_step \<Rightarrow>
         (case (if has_step then py_in ''verified'' data else Inr False) of
            Inl e \<Rightarrow> Inl e
          | Inr True \<Rightarrow>
             (case py_getitem data ''step'' of
                Inl e \<Rightarrow> Inl e
              | Inr st \<Rightarrow>
                 if \<not> isinstance_int st then Inr (steps, fv)
                 else (case py_getitem data ''verified'' of
                    Inl e \<Rightarrow> Inl e
                  | Inr vf \<Rightarrow>
                     if \<not> isinstance_bool vf then Inr (steps, fv)
                     else (case py_get data ''description'' (JStr []) of
                        Inl e \<Rightarrow> Inl e
                      | Inr ds \<Rightarrow>
                         (case make_StepVerification st ds vf of
                            Inl e \<Rightarrow> Inl e
                          | Inr sv \<Rightarrow> Inr (steps @ [sv], fv)))))
          | Inr False \<Rightarrow>
             (case py_in ''final_answer_verified'' data of
                Inl e \<Rightarrow> Inl e
              | Inr False \<Rightarrow> Inr (steps, fv)
              | Inr True \<Rightarrow>
                 (case py_get data ''final_answer_verified'' JNull of
                    Inl e \<Rightarrow> Inl e
                  | Inr v \<Rightarrow>
                     if isinstance_bool v
                     then (case data of JObj kvs \<Rightarrow> Inr (steps, Some kvs)
                                      | _ \<Rightarrow> Inl AttributeError)
                     else Inr (steps, fv)))))"

text \<open>
  The \<^verbatim>\<open>for\<close> loop inside the \<^verbatim>\<open>try\<close>: both \<^verbatim>\<open>except\<close> clauses return what has been
  accumulated so far together with the exception.
\<close>

fun parse_lines ::
  "line list \<Rightarrow> StepVerification list \<Rightarrow> pydict option \<Rightarrow>
     StepVerification list \<times> pydict option \<times> parse_exc option" where
  "parse_lines [] steps fv = (steps, fv, None)"
| "parse_lines (Blank # ls) steps fv = parse_lines ls steps fv"
| "parse_lines (NotJson m # ls) steps fv = (steps, fv, Some (JSONDecodeError m))"
| "parse_lines (Decoded d # ls) steps fv =
     (case handle_data d steps fv of
        Inl e \<Rightarrow> (steps, fv, Some e)
      | Inr (steps', fv') \<Rightarrow> parse_lines ls steps' fv')"

definition parse ::
  "CodeExecutionResult \<Rightarrow> StepVerification list \<times> pydict option \<times> parse_exc option" where
  "parse execution_result =
     (if \<not> success execution_result then ([], None, None)
      else parse_lines (stdout execution_result) [] None)"

section \<open>The sandbox executor (executor.py)\<close>

text \<open>
  An exception object, by what the executor and the pipeline read of it while it is
  handled:
  \<^item> \<open>exc_class\<close>: \<^verbatim>\<open>type(e).__name__\<close>. It is a string (\<open>Name\<close>), or reading it raises
    (\<open>NameRaises\<close>), or it is no string and the constructor of \<^verbatim>\<open>CodeExecutionResult\<close>
    raises \<^verbatim>\<open>ValidationError\<close> for it (\<open>NameInvalid\<close>);
  \<^item> \<open>exc_str\<close>: the text \<^verbatim>\<open>str(e)\<close> returns, or the exception it raises;
  \<^item> \<open>exc_trace\<close>: the text \<^verbatim>\<open>traceback.format_exc()\<close> returns, or the exception it
    raises (as it does for a class without \<^verbatim>\<open>__module__\<close>);
  \<^item> \<open>derives_Exception\<close>: whether the class derives from \<^verbatim>\<open>Exception\<close>, which is what an
    \<^verbatim>\<open>except Exception\<close> clause tests. \<^verbatim>\<open>SystemExit\<close>, \<^verbatim>\<open>KeyboardInterrupt\<close>,
    \<^verbatim>\<open>GeneratorExit\<close> and \<^verbatim>\<open>BaseException\<close> itself do not.
\<close>

datatype py_exc =
  PyExc (exc_class: class_name) (exc_str: "py_exc + string") (exc_trace: "py_exc + string")
    (derives_Exception: bool)
and class_name = Name string | NameRaises py_exc | NameInvalid py_exc

text \<open>An exception of a builtin class: name, message and traceback text are strings.\<close>

definition plain_exc :: "string \<Rightarrow> string \<Rightarrow> string \<Rightarrow> bool \<Rightarrow> py_exc" where
  "plain_exc cls msg trace derives = PyExc (Name cls) (Inr msg) (Inr trace) derives"

text \<open>
  What \<^verbatim>\<open>exec(code, namespace)\<close> does under the alarm, with the text written to the two
  captured streams up to that point:
  \<^item> \<open>Finishes\<close>: it returns;
  \<^item> \<open>Throws\<close>: an exception propagates out of it (a runtime error, the \<^verbatim>\<open>ImportError\<close>
    of \<^verbatim>\<open>_restricted_import\<close>, a \<^verbatim>\<open>MemoryError\<close> under the address-space limit, ...);
  \<^item> \<open>Overruns\<close>: it is still running when an armed alarm rings, and does not catch the
    \<^verbatim>\<open>TimeoutError\<close> that \<^verbatim>\<open>timeout_handler\<close> raises (the traceback text is given);
  \<^item> \<open>Diverges\<close>: it never returns, alarm or not (it swallows the \<^verbatim>\<open>TimeoutError\<close>).
  A source string is modelled by what it does: \<^verbatim>\<open>ast.parse(code)\<close> raises, or the code
  runs.
\<close>

datatype run =
    Finishes "line list" string
  | Throws "line list" string py_exc
  | Overruns "line list" string string
  | Diverges

datatype program = Unparsable py_exc | Runs run

text \<open>
  The process-wide state \<^verbatim>\<open>execute\<close> touches: the objects bound to \<^verbatim>\<open>sys.stdout\<close> and
  \<^verbatim>\<open>sys.stderr\<close>, the handler of \<^verbatim>\<open>SIGALRM\<close>, the seconds of the pending alarm (0: none)
  and the soft and hard limit of \<^verbatim>\<open>RLIMIT_AS\<close> (\<open>None\<close>: \<^verbatim>\<open>RLIM_INFINITY\<close>). Three facts
  of the platform (64-bit POSIX, \<^verbatim>\<open>execute\<close> called on the main thread) decide what the
  library calls do: whether the \<^verbatim>\<open>resource\<close> module can be imported, whether the process
  may raise a hard limit, and, for the two calls that take a C integer
  (\<^verbatim>\<open>signal.alarm\<close>, \<^verbatim>\<open>resource.setrlimit\<close>), the message and the traceback text of the
  \<^verbatim>\<open>OverflowError\<close> the call raises for an argument that does not fit.
\<close>

datatype stream = Stream string | StringIO_capture

datatype handler = Handler string | timeout_handler

record process =
  sys_stdout :: stream
  sys_stderr :: stream
  sigalrm_handler :: handler
  alarm_seconds :: nat
  rlimit_as :: "nat option \<times> nat option"
  resource_available :: bool
  may_raise_limit :: bool
  overflow_text :: "string \<Rightarrow> string \<times> string"

text \<open>\<^verbatim>\<open>SafeExecutor.__init__\<close>: both settings are non-negative integers of any size.\<close>

record SafeExecutor =
  timeout :: nat
  max_memory_mb :: nat

text \<open>\<^verbatim>\<open>str(n)\<close> for the f-string of \<^verbatim>\<open>timeout_handler\<close>.\<close>

function str_nat :: "nat \<Rightarrow> string" where
  "str_nat n =
     (if n < 10 then [''0123456789'' ! n]
      else str_nat (n div 10) @ [''0123456789'' ! (n mod 10)])"
  by pat_completeness auto
termination
  by (relation "measure (\<lambda>n. n)") auto

declare str_nat.simps [simp del]

definition timeout_error :: "SafeExecutor \<Rightarrow> string \<Rightarrow> py_exc" where
  "timeout_error ex trace =
     plain_exc ''TimeoutError''
       (''Execution exceeded the time limit of '' @ str_nat (timeout ex) @ '' seconds.'')
       trace True"

text \<open>The \<^verbatim>\<open>OverflowError\<close> of the named library call.\<close>

definition overflow_error :: "process \<Rightarrow> string \<Rightarrow> py_exc" where
  "overflow_error p call =
     (case overflow_text p call of (msg, trace) \<Rightarrow> plain_exc ''OverflowError'' msg trace True)"

definition limit_allows :: "nat \<Rightarrow> nat option \<Rightarrow> bool" where
  "limit_allows n hard = (case hard of None \<Rightarrow> True | Some h \<Rightarrow> n \<le> h)"

definition memory_warning :: string where
  "memory_warning =
     ''Warning: Could not set memory limits. '' @
     [CHR 0x27] @ ''resource'' @ [CHR 0x27] @ '' module not available.'' @ [CHR 0x0A]"

text \<open>
  \<^verbatim>\<open>_apply_resource_limits\<close>: \<open>Inr\<close> gives what it prints to \<^verbatim>\<open>sys.stderr\<close> and the new
  state, \<open>Inl\<close> the exception that leaves it. \<^verbatim>\<open>import resource\<close> raises \<^verbatim>\<open>ImportError\<close>
  where the module is missing; \<^verbatim>\<open>setrlimit\<close> raises \<^verbatim>\<open>ValueError\<close> when the new hard limit
  is above the current one and the process may not raise it. Both are caught and a
  warning is printed. A limit of \<open>2^63\<close> bytes or more does not fit the C integer:
  \<^verbatim>\<open>setrlimit\<close> raises \<^verbatim>\<open>OverflowError\<close>, which the \<^verbatim>\<open>except (ImportError, ValueError)\<close>
  clause does not catch.
\<close>

definition apply_resource_limits ::
  "SafeExecutor \<Rightarrow> process \<Rightarrow> py_exc + (string \<times> process)" where
  "apply_resource_limits ex p =
     (if \<not> resource_available p then Inr (memory_warning, p)
      else let memory_bytes = max_memory_mb ex * 1024 * 1024 in
        if 2 ^ 63 \<le> memory_bytes then Inl (overflow_error p ''resource.setrlimit'')
        else if \<not> may_raise_limit p \<and> \<not> limit_allows memory_bytes (snd (rlimit_as p))
        then Inr (memory_warning, p)
        else Inr ([], p\<lparr>rlimit_as := (Some memory_bytes, Some memory_bytes)\<rparr>))"

text \<open>
  Entering \<^verbatim>\<open>_timeout_context\<close> (its \<^verbatim>\<open>try\<close> part up to the \<^verbatim>\<open>yield\<close>): the handler that
  was installed, the state, and the \<^verbatim>\<open>OverflowError\<close> that \<^verbatim>\<open>signal.alarm\<close> raises for
  \<open>2^31\<close> seconds or more, in which case no alarm is armed and the body of the \<^verbatim>\<open>with\<close>
  statement never runs. Leaving it is the \<^verbatim>\<open>finally\<close> part, which runs in either case.
\<close>

definition timeout_enter ::
  "SafeExecutor \<Rightarrow> process \<Rightarrow> py_exc option \<times> handler \<times> process" where
  "timeout_enter ex p =
     (let original_handler = sigalrm_handler p;
          p1 = p\<lparr>sigalrm_handler := timeout_handler\<rparr>
      in if 2 ^ 31 \<le> timeout ex
         then (Some (overflow_error p ''signal.alarm''), original_handler, p1)
         else (None, original_handler, p1\<lparr>alarm_seconds := timeout ex\<rparr>))"

definition timeout_leave :: "handler \<Rightarrow> process \<Rightarrow> process" where
  "timeout_leave original_handler p =
     p\<lparr>alarm_seconds := 0, sigalrm_handler := original_handler\<rparr>"

text \<open>The \<^verbatim>\<open>finally\<close> clause of \<^verbatim>\<open>execute\<close>.\<close>

definition restore_streams :: "stream \<Rightarrow> stream \<Rightarrow> process \<Rightarrow> process" where
  "restore_streams old_stdout old_stderr p =
     p\<lparr>sys_stdout := old_stdout, sys_stderr := old_stderr\<rparr>"

text \<open>
  The \<^verbatim>\<open>except Exception as e\<close> clause of \<^verbatim>\<open>execute\<close>. An exception that does not derive
  from \<^verbatim>\<open>Exception\<close> is not caught and leaves \<^verbatim>\<open>execute\<close> (\<open>Inl\<close>). For a caught one the
  arguments of the result are evaluated in the order written: \<^verbatim>\<open>traceback.format_exc()\<close>
  for \<^verbatim>\<open>stderr\<close>, \<^verbatim>\<open>type(e).__name__\<close>, \<^verbatim>\<open>str(e)\<close>, \<^verbatim>\<open>traceback.format_exc()\<close> again, and
  then the constructor validates the fields. An exception raised on the way is raised
  inside the handler and leaves \<^verbatim>\<open>execute\<close>, whatever its class.
\<close>

definition except_Exception ::
  "line list \<Rightarrow> string \<Rightarrow> py_exc \<Rightarrow> py_exc + CodeExecutionResult" where
  "except_Exception out err e =
     (if \<not> derives_Exception e then Inl e
      else (case exc_trace e of
        Inl raised \<Rightarrow> Inl raised
      | Inr trace \<Rightarrow>
         (case exc_class e of
            NameRaises raised \<Rightarrow> Inl raised
          | _ \<Rightarrow>
             (case exc_str e of
                Inl raised \<Rightarrow> Inl raised
              | Inr msg \<Rightarrow>
                 (case exc_class e of
                    NameInvalid raised \<Rightarrow> Inl raised
                  | NameRaises raised \<Rightarrow> Inl raised
                  | Name cls \<Rightarrow>
                      Inr \<lparr>success = False, stdout = out, stderr = err @ trace,
                           exception_type = Some cls, exception_message = Some msg,
                           exception_traceback = Some trace\<rparr>)))))"

text \<open>
  \<^verbatim>\<open>SafeExecutor.execute\<close>. The result is \<open>None\<close> when the call never returns, else the
  outcome (\<open>Inl\<close>: the exception that leaves \<^verbatim>\<open>execute\<close>) and the state of the process
  afterwards.
\<close>

definition execute ::
  "SafeExecutor \<Rightarrow> program \<Rightarrow> process \<Rightarrow> ((py_exc + CodeExecutionResult) \<times> process) option" where
  "execute ex code p =
     (let old_stdout = sys_stdout p; old_stderr = sys_stderr p in
      case code of
        Unparsable e \<Rightarrow>
          Some (except_Exception [] [] e, restore_streams old_stdout old_stderr p)
      | Runs r \<Rightarrow>
          let p1 = p\<lparr>sys_stdout := StringIO_capture, sys_stderr := StringIO_capture\<rparr> in
          (case apply_resource_limits ex p1 of
             Inl e \<Rightarrow> Some (except_Exception [] [] e, restore_streams old_stdout old_stderr p1)
           | Inr (warning, p2) \<Rightarrow>
              (case timeout_enter ex p2 of
                 (Some e, original_handler, p3) \<Rightarrow>
                   Some (except_Exception [] warning e,
                         restore_streams old_stdout old_stderr
                           (timeout_leave original_handler p3))
               | (None, original_handler, p3) \<Rightarrow>
                  let p4 = restore_streams old_stdout old_stderr
                             (timeout_leave original_handler p3)
                  in (case r of
                        Finishes out err \<Rightarrow>
                          Some (Inr \<lparr>success = True, stdout = out, stderr = warning @ err,
                                      exception_type = None, exception_message = None,
                                      exception_traceback = None\<rparr>, p4)
                      | Throws out err e \<Rightarrow>
                          Some (except_Exception out (warning @ err) e, p4)
                      | Overruns out err trace \<Rightarrow>
                          if alarm_seconds p3 = 0 then None
                          else Some (except_Exception out (warning @ err)
                                       (timeout_error ex trace), p4)
                      | Diverges \<Rightarrow> None))))"

section \<open>The verification pipeline (verification.py)\<close>

record ReasoningOutput =
  original_problem :: string
  worked_solution :: string
  final_answer :: string
  think_reasoning :: string
  processing_metadata :: "(string \<times> string) list"

datatype ErrorType =
    SYNTAX_ERROR | IMPORT_ERROR | RUNTIME_ERROR | TIMEOUT | ASSERTION_FAILED
  | ANSWER_MISMATCH | INCOMPLETE_VERIFICATION | SYMBOLIC_FAILURE | CONTRACT_VIOLATION

text \<open>
  \<^verbatim>\<open>VerificationResult\<close>. Of each \<^verbatim>\<open>VerificationError\<close> only the \<^verbatim>\<open>error_type\<close> is kept: the
  message texts are formatted from Python values and no decision reads them. The unused
  \<^verbatim>\<open>repair_history\<close> field is left out. A Python float is held as the real number it
  stands for (see \<open>to_double\<close>).
\<close>

record VerificationResult =
  status :: string
  confidence_score :: real
  reasoning_output :: ReasoningOutput
  generated_code :: string
  execution_result :: "CodeExecutionResult option"
  step_verifications :: "StepVerification list"
  answer_match :: "json option"
  errors :: "ErrorType list"
  metadata :: "(string \<times> bool) list"

text \<open>Truth value of a decoded value, as \<^verbatim>\<open>if v:\<close> and \<^verbatim>\<open>not v\<close> take it.\<close>

fun py_truthy :: "json \<Rightarrow> bool" where
  "py_truthy JNull = False"
| "py_truthy (JBool b) = b"
| "py_truthy (JInt n) = (n \<noteq> 0)"
| "py_truthy (JFloat r) = (r \<noteq> 0)"
| "py_truthy (JStr s) = (s \<noteq> [])"
| "py_truthy (JArr xs) = (xs \<noteq> [])"
| "py_truthy (JObj kvs) = (kvs \<noteq> [])"

text \<open>\<^verbatim>\<open>d.get(key, default)\<close> on a dict.\<close>

definition dict_get :: "pydict \<Rightarrow> string \<Rightarrow> json \<Rightarrow> json" where
  "dict_get d k dflt = (case map_of d k of None \<Rightarrow> dflt | Some v \<Rightarrow> v)"

text \<open>Rounding to the nearest integer, a tie going to the even one.\<close>

definition py_round_int :: "real \<Rightarrow> int" where
  "py_round_int x =
     (let f = \<lfloor>x\<rfloor>; d = x - of_int f in
      if d < 1/2 then f else if 1/2 < d then f + 1 else if even f then f else f + 1)"

text \<open>
  Python's \<^verbatim>\<open>float\<close> is the IEEE 754 double: 53 significant bits, exponents from -1022 to
  1023, every operation rounded to the nearest double with a tie going to the even
  significand. A double is held as the real number it stands for. \<open>quantum x\<close> is the
  spacing of the doubles around \<open>x \<ge> 0\<close>: \<open>2^(e - 52)\<close> in the binade
  \<open>2^e \<le> x < 2^(e + 1)\<close>, and \<open>2^(-1074)\<close> below the smallest normal number; the two
  searches start at the binade of 1 and walk down or up. \<open>to_double x\<close> is the double
  nearest to \<open>x\<close> (below the overflow threshold \<open>2^1024\<close>).
\<close>

fun quantum_down :: "nat \<Rightarrow> real \<Rightarrow> real \<Rightarrow> real" where
  "quantum_down 0 q x = q"
| "quantum_down (Suc k) q x = (if q * 2 ^ 52 \<le> x then q else quantum_down k (q / 2) x)"

fun quantum_up :: "nat \<Rightarrow> real \<Rightarrow> real \<Rightarrow> real" where
  "quantum_up 0 q x = q"
| "quantum_up (Suc k) q x = (if x < q * 2 ^ 53 then q else quantum_up k (q * 2) x)"

definition quantum :: "real \<Rightarrow> real" where
  "quantum x =
     (if x < 2 then quantum_down 1022 (1 / 2 ^ 52) x else quantum_up 1023 (1 / 2 ^ 52) x)"

definition to_double :: "real \<Rightarrow> real" where
  "to_double x =
     (if x = 0 then 0
      else if x < 0 then - (quantum (- x) * of_int (py_round_int (- x / quantum (- x))))
      else quantum x * of_int (py_round_int (x / quantum x)))"

text \<open>
  \<^verbatim>\<open>round(x, 4)\<close> on a float: the exact value of \<open>x\<close> is rounded to the nearest multiple
  of \<open>1/10000\<close>, a tie going to the even multiple, and the decimal number obtained is
  converted to the nearest double.
\<close>

definition py_round4 :: "real \<Rightarrow> real" where
  "py_round4 x = to_double (of_int (py_round_int (x * 10000)) / 10000)"

text \<open>\<^verbatim>\<open>sum(1 for s in steps if s.verified)\<close>.\<close>

fun count_verified :: "StepVerification list \<Rightarrow> int" where
  "count_verified [] = 0"
| "count_verified (s # steps) = (if verified s then 1 + count_verified steps else count_verified steps)"

text \<open>
  \<^verbatim>\<open>_calculate_confidence\<close>; \<^verbatim>\<open>not final_verdict\<close> holds for \<^verbatim>\<open>None\<close> and for an empty dict.
  The division of the two integers, the product and each sum give the nearest double;
  \<open>0.5\<close> and \<open>0.25\<close> are doubles.
\<close>

definition calculate_confidence ::
  "CodeExecutionResult \<Rightarrow> StepVerification list \<Rightarrow> pydict option \<Rightarrow> real" where
  "calculate_confidence exec_res steps final_verdict =
     (case final_verdict of
        None \<Rightarrow> 0
      | Some fv \<Rightarrow>
          if \<not> success exec_res \<or> fv = [] then 0
          else
            let score = 1/2;
                score =
                  (if steps \<noteq> []
                   then let step_ratio =
                          to_double (of_int (count_verified steps) / of_nat (length steps))
                        in to_double (score + to_double (step_ratio * (1/4)))
                   else to_double (score + 1/4));
                score = (if py_truthy (dict_get fv ''final_answer_verified'' (JBool False))
                         then to_double (score + 1/4) else score)
            in py_round4 (max 0 (min 1 score)))"

definition create_final_result ::
  "ReasoningOutput \<Rightarrow> string \<Rightarrow> CodeExecutionResult \<Rightarrow> StepVerification list \<Rightarrow> pydict \<Rightarrow>
     string \<Rightarrow> bool \<Rightarrow> VerificationResult" where
  "create_final_result reasoning code exec_result steps final_verdict status' repaired =
     \<lparr>status = status',
      confidence_score = calculate_confidence exec_result steps (Some final_verdict),
      reasoning_output = reasoning,
      generated_code = code,
      execution_result = Some exec_result,
      step_verifications = steps,
      answer_match = map_of final_verdict ''final_answer_verified'',
      errors =
        (if status' = ''failed_reasoning''
         then (if filter (\<lambda>s. \<not> verified s) steps \<noteq> [] then [ASSERTION_FAILED] else []) @
              (if \<not> py_truthy (dict_get final_verdict ''final_answer_verified'' JNull)
               then [ANSWER_MISMATCH] else [])
         else []),
      metadata = [(''repaired_from_codegen_fault'', repaired)]\<rparr>"

definition create_failure_result ::
  "ReasoningOutput \<Rightarrow> string \<Rightarrow> ErrorType list \<Rightarrow> VerificationResult" where
  "create_failure_result reasoning code errs =
     \<lparr>status = ''failed_pipeline'',
      confidence_score = 0,
      reasoning_output = reasoning,
      generated_code = code,
      execution_result = None,
      step_verifications = [],
      answer_match = None,
      errors = (if errs \<noteq> [] then errs else [RUNTIME_ERROR]),
      metadata = [(''pipeline_failure'', True)]\<rparr>"

text \<open>
  The \<^verbatim>\<open>extra_error\<close> argument of \<^verbatim>\<open>_handle_codegen_fault\<close>: absent, the text of a parse
  error, or the text about the missing verdict.
\<close>

datatype extra_error = NoExtra | ParsingFailed parse_exc | MissingVerdict

text \<open>
  The pipeline with its collaborators. The language model and the generated code are
  outside the repository, so each is a function of the number of earlier calls of its
  kind and of what the pipeline passes to it:
  \<^item> \<open>generate\<close>: \<^verbatim>\<open>SymPyCodeGenerator.generate\<close>, the code or the exception it raises;
  \<^item> \<open>get_repaired_code\<close>: \<^verbatim>\<open>_get_repaired_code\<close> on the repair prompt, which is built
    from the original code and from \<^verbatim>\<open>exec_result.stderr or extra_error\<close>;
  \<^item> \<open>behaviour\<close>: what a source string does when the executor runs it.
\<close>

record VerificationPipeline =
  executor :: SafeExecutor
  generate :: "nat \<Rightarrow> ReasoningOutput \<Rightarrow> py_exc + string"
  get_repaired_code ::
    "nat \<Rightarrow> ReasoningOutput \<Rightarrow> string \<Rightarrow> string \<Rightarrow> extra_error \<Rightarrow> py_exc + string"
  behaviour :: "nat \<Rightarrow> string \<Rightarrow> program"

text \<open>
  The state threaded through the calls: the process, and how often each collaborator
  has been called (code generations, code repairs, sandbox executions, pipeline runs,
  reasoning repairs).
\<close>

record world =
  proc :: process
  generations :: nat
  repairs :: nat
  executions :: nat
  pipeline_runs :: nat
  reasoning_repairs :: nat

text \<open>\<^verbatim>\<open>self.executor.execute(code)\<close>.\<close>

definition run_code ::
  "VerificationPipeline \<Rightarrow> string \<Rightarrow> world \<Rightarrow> ((py_exc + CodeExecutionResult) \<times> world) option" where
  "run_code pl code w =
     (case execute (executor pl) (behaviour pl (executions w) code) (proc w) of
        None \<Rightarrow> None
      | Some (out, p') \<Rightarrow> Some (out, w\<lparr>proc := p', executions := executions w + 1\<rparr>))"

text \<open>
  \<^verbatim>\<open>_handle_codegen_fault\<close>. Inside its \<^verbatim>\<open>try\<close>, an exception deriving from \<^verbatim>\<open>Exception\<close>
  (the two \<^verbatim>\<open>RuntimeError\<close>s it raises itself included) ends in the failure result.
\<close>

definition handle_codegen_fault ::
  "VerificationPipeline \<Rightarrow> string \<Rightarrow> CodeExecutionResult \<Rightarrow> ReasoningOutput \<Rightarrow> extra_error \<Rightarrow>
     world \<Rightarrow> ((py_exc + VerificationResult) \<times> world) option" where
  "handle_codegen_fault pl original_code exec_result reasoning extra w =
     (let failure = create_failure_result reasoning original_code [SYNTAX_ERROR];
          w1 = w\<lparr>repairs := repairs w + 1\<rparr>
      in case get_repaired_code pl (repairs w) reasoning original_code (stderr exec_result) extra of
           Inl e \<Rightarrow> Some (if derives_Exception e then Inr failure else Inl e, w1)
         | Inr repaired_code \<Rightarrow>
            (case run_code pl repaired_code w1 of
               None \<Rightarrow> None
             | Some (Inl e, w2) \<Rightarrow> Some (if derives_Exception e then Inr failure else Inl e, w2)
             | Some (Inr new_exec_result, w2) \<Rightarrow>
                 if \<not> success new_exec_result then Some (Inr failure, w2)
                 else (case parse new_exec_result of
                   (steps, final_verdict, parsing_error) \<Rightarrow>
                     (case final_verdict of
                        None \<Rightarrow> Some (Inr failure, w2)
                      | Some fv \<Rightarrow>
                          if parsing_error \<noteq> None \<or> fv = [] then Some (Inr failure, w2)
                          else Some (Inr (create_final_result reasoning repaired_code
                                 new_exec_result steps fv
                                 (if list_all verified steps \<and>
                                     py_truthy (dict_get fv ''final_answer_verified'' JNull)
                                  then ''verified'' else ''failed_reasoning'') True), w2)))))"

text \<open>\<^verbatim>\<open>VerificationPipeline.verify\<close>.\<close>

definition verify ::
  "VerificationPipeline \<Rightarrow> ReasoningOutput \<Rightarrow> world \<Rightarrow>
     ((py_exc + VerificationResult) \<times> world) option" where
  "verify pl reasoning w0 =
     (let w = w0\<lparr>pipeline_runs := pipeline_runs w0 + 1\<rparr>;
          w1 = w\<lparr>generations := generations w + 1\<rparr>
      in case generate pl (generations w) reasoning of
           Inl e \<Rightarrow>
             Some (if derives_Exception e
                   then Inr (create_failure_result reasoning [] []) else Inl e, w1)
         | Inr code \<Rightarrow>
            (case run_code pl code w1 of
               None \<Rightarrow> None
             | Some (Inl e, w2) \<Rightarrow> Some (Inl e, w2)
             | Some (Inr exec_result, w2) \<Rightarrow>
                 if \<not> success exec_result
                 then handle_codegen_fault pl code exec_result reasoning NoExtra w2
                 else (case parse exec_result of
                   (steps, final_verdict, parsing_error) \<Rightarrow>
                     (case parsing_error of
                        Some e \<Rightarrow>
                          handle_codegen_fault pl code exec_result reasoning
                            (ParsingFailed e) w2
                      | None \<Rightarrow>
                         (case final_verdict of
                            None \<Rightarrow>
                              handle_codegen_fault pl code exec_result reasoning
                                MissingVerdict w2
                          | Some fv \<Rightarrow>
                              if fv = []
                              then handle_codegen_fault pl code exec_result reasoning
                                     MissingVerdict w2
                              else Some (Inr (create_final_result reasoning code
                                     exec_result steps fv
                                     (if list_all verified steps \<and>
                                         py_truthy (dict_get fv ''final_answer_verified''
                                           (JBool False))
                                      then ''verified'' else ''failed_reasoning'') False),
                                     w2))))))"

section \<open>The repair orchestrator (verification_orchestrator.py)\<close>

text \<open>\<^verbatim>\<open>RepairAttempt\<close>, without \<^verbatim>\<open>processing_time\<close> and the never-set \<^verbatim>\<open>error_message\<close>.\<close>

record RepairAttempt =
  attempt_number :: nat
  repair_type :: string
  reason :: string
  repair_success :: bool
  repaired_reasoning :: "ReasoningOutput option"

text \<open>
  The orchestrator: its pipeline, and the reasoning-repair call (the language model's
  answer run through \<^verbatim>\<open>_parse_reasoning_response\<close>), which gives the worked solution, the
  final answer and the think text, or raises.
\<close>

record VerificationOrchestrator =
  verification_pipeline :: VerificationPipeline
  reasoning_repair ::
    "nat \<Rightarrow> ReasoningOutput \<Rightarrow> VerificationResult \<Rightarrow> py_exc + (string \<times> string \<times> string)"

text \<open>\<^verbatim>\<open>_attempt_reasoning_repair\<close>: \<^verbatim>\<open>except Exception\<close> turns a failure into \<^verbatim>\<open>None\<close>.\<close>

definition attempt_reasoning_repair ::
  "VerificationOrchestrator \<Rightarrow> ReasoningOutput \<Rightarrow> VerificationResult \<Rightarrow> world \<Rightarrow>
     (py_exc + ReasoningOutput option) \<times> world" where
  "attempt_reasoning_repair orch failed_reasoning verification_result w =
     (let w1 = w\<lparr>reasoning_repairs := reasoning_repairs w + 1\<rparr>
      in case reasoning_repair orch (reasoning_repairs w) failed_reasoning verification_result of
           Inl e \<Rightarrow> (if derives_Exception e then Inr None else Inl e, w1)
         | Inr (solution, answer, think) \<Rightarrow>
             (Inr (Some \<lparr>original_problem = original_problem failed_reasoning,
                          worked_solution = solution,
                          final_answer = answer,
                          think_reasoning = think,
                          processing_metadata =
                            [(''source'', ''reasoning_repair''),
                             (''original_failure'', status verification_result)]\<rparr>), w1))"

text \<open>Reading the local \<^verbatim>\<open>verification_result\<close> before any assignment to it.\<close>

definition unbound_local :: py_exc where
  "unbound_local =
     plain_exc ''UnboundLocalError''
       (''cannot access local variable '' @ [CHR 0x27] @ ''verification_result'' @ [CHR 0x27] @
        '' where it is not associated with a value'') [] True"

text \<open>The \<^verbatim>\<open>return verification_result, repair_history\<close> after the loop.\<close>

definition after_loop ::
  "VerificationResult option \<Rightarrow> RepairAttempt list \<Rightarrow>
     py_exc + (VerificationResult \<times> RepairAttempt list)" where
  "after_loop last_result repair_history =
     (case last_result of
        None \<Rightarrow> Inl unbound_local
      | Some r \<Rightarrow> Inr (r, repair_history))"

text \<open>
  The \<^verbatim>\<open>if attempt > 0:\<close> block of the loop body. \<open>Inl\<close>: the call is over with that
  outcome (an exception, or the \<^verbatim>\<open>break\<close>); \<open>Inr\<close>: the reasoning to verify next and the
  history.
\<close>

definition repair_block ::
  "VerificationOrchestrator \<Rightarrow> nat \<Rightarrow> ReasoningOutput \<Rightarrow> VerificationResult option \<Rightarrow>
     RepairAttempt list \<Rightarrow> world \<Rightarrow>
     ((py_exc + (VerificationResult \<times> RepairAttempt list)) + (ReasoningOutput \<times> RepairAttempt list))
       \<times> world" where
  "repair_block orch attempt current_reasoning last_result repair_history w =
     (if attempt > 0 then
        (case last_result of
           None \<Rightarrow> (Inl (Inl unbound_local), w)
         | Some vr \<Rightarrow>
            (case attempt_reasoning_repair orch current_reasoning vr w of
               (Inl e, w') \<Rightarrow> (Inl (Inl e), w')
             | (Inr repaired, w') \<Rightarrow>
                 let history = repair_history @
                       [\<lparr>attempt_number = attempt, repair_type = ''reasoning'',
                         reason = ''Reasoning verification failed with status: '' @ status vr,
                         repair_success = (repaired \<noteq> None),
                         repaired_reasoning = repaired\<rparr>]
                 in (case repaired of
                       None \<Rightarrow> (Inl (after_loop (Some vr) history), w')
                     | Some r \<Rightarrow> (Inr (r, history), w'))))
      else (Inr (current_reasoning, repair_history), w))"

text \<open>The \<^verbatim>\<open>for attempt in range(max_reasoning_attempts + 1)\<close> loop, over the attempts left.\<close>

fun repair_loop ::
  "VerificationOrchestrator \<Rightarrow> nat list \<Rightarrow> ReasoningOutput \<Rightarrow> VerificationResult option \<Rightarrow>
     RepairAttempt list \<Rightarrow> world \<Rightarrow>
     ((py_exc + (VerificationResult \<times> RepairAttempt list)) \<times> world) option" where
  "repair_loop orch [] current_reasoning last_result repair_history w =
     Some (after_loop last_result repair_history, w)"
| "repair_loop orch (attempt # rest) current_reasoning last_result repair_history w =
     (case repair_block orch attempt current_reasoning last_result repair_history w of
        (Inl out, w') \<Rightarrow> Some (out, w')
      | (Inr (reasoning, history), w') \<Rightarrow>
         (case verify (verification_pipeline orch) reasoning w' of
            None \<Rightarrow> None
          | Some (Inl e, w'') \<Rightarrow> Some (Inl e, w'')
          | Some (Inr vr, w'') \<Rightarrow>
              if status vr = ''verified'' then Some (Inr (vr, history), w'')
              else if status vr \<noteq> ''failed_reasoning'' then Some (Inr (vr, history), w'')
              else repair_loop orch rest reasoning (Some vr) history w''))"

text \<open>\<^verbatim>\<open>verify_with_repair\<close>; \<^verbatim>\<open>range(n)\<close> is empty for \<open>n \<le> 0\<close>.\<close>

definition verify_with_repair ::
  "VerificationOrchestrator \<Rightarrow> ReasoningOutput \<Rightarrow> int \<Rightarrow> world \<Rightarrow>
     ((py_exc + (VerificationResult \<times> RepairAttempt list)) \<times> world) option" where
  "verify_with_repair orch reasoning max_reasoning_attempts w =
     repair_loop orch [0 ..< nat (max_reasoning_attempts + 1)] reasoning None [] w"

section \<open>Notions of the specification\<close>

text \<open>
  A step line as the contract has it: an object with an integer \<^verbatim>\<open>step\<close>, a boolean
  \<^verbatim>\<open>verified\<close> and, when given, a string \<^verbatim>\<open>description\<close>; with the record it stands for.
\<close>

definition conforming_step :: "line \<Rightarrow> StepVerification option" where
  "conforming_step l =
     (case l of
        Decoded (JObj kvs) \<Rightarrow>
          (case (map_of kvs ''step'', map_of kvs ''verified'') of
             (Some (JInt n), Some (JBool b)) \<Rightarrow>
               (case map_of kvs ''description'' of
                  None \<Rightarrow> Some \<lparr>step_number = n, description = [], verified = b\<rparr>
                | Some (JStr d) \<Rightarrow> Some \<lparr>step_number = n, description = d, verified = b\<rparr>
                | Some _ \<Rightarrow> None)
           | _ \<Rightarrow> None)
      | _ \<Rightarrow> None)"

section \<open>Sample inputs\<close>

text \<open>The line \<^verbatim>\<open>{"step": n, "description": d, "verified": b}\<close>.\<close>

definition step_line :: "int \<Rightarrow> string \<Rightarrow> bool \<Rightarrow> line" where
  "step_line n d b =
     Decoded (JObj [(''step'', JInt n), (''description'', JStr d), (''verified'', JBool b)])"

text \<open>The line \<^verbatim>\<open>{"final_answer_verified": b, "computed": "4", "claimed": "4"}\<close>.\<close>

definition verdict_line :: "bool \<Rightarrow> line" where
  "verdict_line b =
     Decoded (JObj [(''final_answer_verified'', JBool b), (''computed'', JStr ''4''),
                    (''claimed'', JStr ''4'')])"

text \<open>The result of a run that succeeded and printed the given lines.\<close>

definition clean_run :: "line list \<Rightarrow> CodeExecutionResult" where
  "clean_run ls =
     \<lparr>success = True, stdout = ls, stderr = [], exception_type = None,
      exception_message = None, exception_traceback = None\<rparr>"














text \<open>
  The executor with the defaults of \<^verbatim>\<open>SafeExecutor.__init__\<close>, and a POSIX process as it
  starts: the interpreter's own streams, the default action for \<^verbatim>\<open>SIGALRM\<close>, no alarm
  pending, no address-space limit, no right to raise a hard limit.
\<close>

definition default_executor :: SafeExecutor where
  "default_executor = \<lparr>timeout = 30, max_memory_mb = 512\<rparr>"

definition fresh_process :: process where
  "fresh_process =
     \<lparr>sys_stdout = Stream ''<stdout>'', sys_stderr = Stream ''<stderr>'',
      sigalrm_handler = Handler ''SIG_DFL'', alarm_seconds = 0, rlimit_as = (None, None),
      resource_available = True, may_raise_limit = False,
      overflow_text =
        (\<lambda>call. if call = ''signal.alarm''
                then (''signed integer is greater than maximum'', [])
                else (''Python int too large to convert to C long'', []))\<rparr>"

text \<open>
  A run violates the output contract when it failed, or its output has a parse error or
  no final verdict; \<open>extra_of\<close> is the \<^verbatim>\<open>extra_error\<close> that \<^verbatim>\<open>verify\<close> hands to the repair
  for such a run.
\<close>

definition contract_fault :: "CodeExecutionResult \<Rightarrow> bool" where
  "contract_fault er =
     (\<not> success er \<or> (case parse er of (steps, fv, pe) \<Rightarrow> pe \<noteq> None \<or> fv = None))"

definition extra_of :: "CodeExecutionResult \<Rightarrow> extra_error" where
  "extra_of er =
     (if \<not> success er then NoExtra
      else (case parse er of
              (steps, fv, Some e) \<Rightarrow> ParsingFailed e
            | (steps, fv, None) \<Rightarrow> MissingVerdict))"

text \<open>The state in which \<^verbatim>\<open>verify\<close> runs the generated code: one more pipeline run and one
  more code generation are counted.\<close>

definition started :: "world \<Rightarrow> world" where
  "started w = w\<lparr>pipeline_runs := pipeline_runs w + 1, generations := generations w + 1\<rparr>"

text \<open>
  A pipeline whose language model answers every call with code, and whose first and
  later sandbox runs behave as given; a reasoning artifact; the state before any call.
\<close>

definition scripted_pipeline :: "program \<Rightarrow> program \<Rightarrow> VerificationPipeline" where
  "scripted_pipeline first later =
     \<lparr>executor = default_executor,
      generate = (\<lambda>n r. Inr ''generated''),
      get_repaired_code = (\<lambda>n r code err extra. Inr ''repaired''),
      behaviour = (\<lambda>n code. if n = 0 then first else later)\<rparr>"

definition sample_reasoning :: ReasoningOutput where
  "sample_reasoning =
     \<lparr>original_problem = ''What is 2 + 2?'', worked_solution = ''2 + 2 = 4'',
      final_answer = ''4'', think_reasoning = [], processing_metadata = []\<rparr>"

definition fresh_world :: world where
  "fresh_world =
     \<lparr>proc = fresh_process, generations = 0, repairs = 0, executions = 0,
      pipeline_runs = 0, reasoning_repairs = 0\<rparr>"

text \<open>The process after a first run of the default executor.\<close>

definition limited_process :: process where
  "limited_process = fresh_process\<lparr>rlimit_as := (Some 536870912, Some 536870912)\<rparr>"

text \<open>An orchestrator around a scripted pipeline whose reasoning repair always answers.\<close>

definition sample_orchestrator :: "program \<Rightarrow> program \<Rightarrow> VerificationOrchestrator" where
  "sample_orchestrator first later =
     \<lparr>verification_pipeline = scripted_pipeline first later,
      reasoning_repair = (\<lambda>n r vr. Inr (''2 + 2 = 4'', ''4'', []))\<rparr>"


section \<open>Properties of the parser\<close>

lemma handle_data_extends:
  "handle_data d s v = Inr (s', v') \<Longrightarrow> \<exists>ext. s' = s @ ext"
  by (auto simp: handle_data_def split: sum.splits bool.splits if_splits json.splits)

lemma parse_lines_extends:
  "parse_lines ls s v = (s', v', r) \<Longrightarrow> \<exists>ext. s' = s @ ext"
proof (induction ls arbitrary: s v)
  case Nil
  then show ?case by simp
next
  case (Cons l ls)
  show ?case
  proof (cases l)
    case Blank
    with Cons show ?thesis by simp
  next
    case (NotJson m)
    with Cons show ?thesis by simp
  next
    case (Decoded d)
    show ?thesis
    proof (cases "handle_data d s v")
      case (Inl e)
      with Cons.prems Decoded show ?thesis by simp
    next
      case (Inr p)
      obtain s1 v1 where p: "p = (s1, v1)" by (cases p)
      from handle_data_extends Inr p obtain e1 where e1: "s1 = s @ e1" by blast
      from Cons.prems Decoded Inr p have "parse_lines ls s1 v1 = (s', v', r)" by simp
      from Cons.IH [OF this] obtain e2 where "s' = s1 @ e2" by blast
      with e1 show ?thesis by simp
    qed
  qed
qed

lemma handle_data_conforming:
  "conforming_step (Decoded d) = Some sv \<Longrightarrow> handle_data d s v = Inr (s @ [sv], v)"
  by (auto simp: conforming_step_def handle_data_def split: json.splits option.splits)

lemma parse_lines_keeps:
  "parse_lines ls s v = (s', v', None) \<Longrightarrow> l \<in> set ls \<Longrightarrow> conforming_step l = Some sv
     \<Longrightarrow> sv \<in> set s'"
proof (induction ls arbitrary: s v)
  case Nil
  then show ?case by simp
next
  case (Cons x ls)
  show ?case
  proof (cases x)
    case Blank
    with Cons.prems have "parse_lines ls s v = (s', v', None)" "l \<in> set ls"
      by (auto simp: conforming_step_def)
    from Cons.IH [OF this Cons.prems(3)] show ?thesis .
  next
    case (NotJson m)
    with Cons.prems show ?thesis by simp
  next
    case (Decoded d)
    show ?thesis
    proof (cases "handle_data d s v")
      case (Inl e)
      with Cons.prems Decoded show ?thesis by simp
    next
      case (Inr p)
      obtain s1 v1 where p: "p = (s1, v1)" by (cases p)
      from Cons.prems Decoded Inr p have rest: "parse_lines ls s1 v1 = (s', v', None)" by simp
      show ?thesis
      proof (cases "l = x")
        case True
        with Decoded Cons.prems(3) have "handle_data d s v = Inr (s @ [sv], v)"
          by (simp add: handle_data_conforming)
        with Inr p have "s1 = s @ [sv]" by simp
        moreover from parse_lines_extends [OF rest] obtain ext where "s' = s1 @ ext" by blast
        ultimately show ?thesis by simp
      next
        case False
        with Cons.prems(2) have "l \<in> set ls" by simp
        from Cons.IH [OF rest this Cons.prems(3)] show ?thesis .
      qed
    qed
  qed
qed

lemma parse_lines_split:
  "parse_lines ls s v = (s', v', Some e) \<Longrightarrow>
     \<exists>pre bad post. ls = pre @ bad # post \<and> parse_lines pre s v = (s', v', None) \<and>
        parse_lines [bad] s' v' = (s', v', Some e)"
proof (induction ls arbitrary: s v)
  case Nil
  then show ?case by simp
next
  case (Cons x ls)
  show ?case
  proof (cases x)
    case Blank
    with Cons.prems have "parse_lines ls s v = (s', v', Some e)" by simp
    from Cons.IH [OF this] obtain pre bad post where
      "ls = pre @ bad # post" "parse_lines pre s v = (s', v', None)"
      "parse_lines [bad] s' v' = (s', v', Some e)" by blast
    with Blank have "x # ls = (x # pre) @ bad # post \<and> parse_lines (x # pre) s v = (s', v', None)
       \<and> parse_lines [bad] s' v' = (s', v', Some e)" by simp
    then show ?thesis by blast
  next
    case (NotJson m)
    with Cons.prems have "x # ls = [] @ x # ls \<and> parse_lines [] s v = (s', v', None)
       \<and> parse_lines [x] s' v' = (s', v', Some e)" by auto
    then show ?thesis by blast
  next
    case (Decoded d)
    show ?thesis
    proof (cases "handle_data d s v")
      case (Inl e')
      with Cons.prems Decoded have "x # ls = [] @ x # ls \<and> parse_lines [] s v = (s', v', None)
         \<and> parse_lines [x] s' v' = (s', v', Some e)" by auto
      then show ?thesis by blast
    next
      case (Inr p)
      obtain s1 v1 where p: "p = (s1, v1)" by (cases p)
      from Cons.prems Decoded Inr p have "parse_lines ls s1 v1 = (s', v', Some e)" by simp
      from Cons.IH [OF this] obtain pre bad post where
        "ls = pre @ bad # post" "parse_lines pre s1 v1 = (s', v', None)"
        "parse_lines [bad] s' v' = (s', v', Some e)" by blast
      with Decoded Inr p have "x # ls = (x # pre) @ bad # post \<and>
         parse_lines (x # pre) s v = (s', v', None) \<and>
         parse_lines [bad] s' v' = (s', v', Some e)" by simp
      then show ?thesis by blast
    qed
  qed
qed

lemma parse_sample_broken:
  "parse (clean_run [step_line 1 ''ok'' True, NotJson ''not-json'', step_line 2 ''later'' True]) =
     ([\<lparr>step_number = 1, description = ''ok'', verified = True\<rparr>], None,
      Some (JSONDecodeError ''not-json''))"
  by (simp add: parse_def clean_run_def step_line_def handle_data_def)

text \<open>
  C10. Whenever \<^verbatim>\<open>parse\<close> returns a parse error, the steps and the verdict it returns are
  what the lines before the offending line gave: the output splits into the lines before,
  the offending line and the rest, parsing the lines before alone gives exactly the
  returned steps and verdict with no error, the offending line raises the returned error,
  and every contract-conforming step line before it is in the returned list.
\<close>

theorem parse_error_keeps_partial_results:
  assumes "parse er = (steps, fv, Some e)"
  shows "\<exists>pre bad post. stdout er = pre @ bad # post \<and>
           parse_lines pre [] None = (steps, fv, None) \<and>
           parse_lines [bad] steps fv = (steps, fv, Some e) \<and>
           (\<forall>l sv. l \<in> set pre \<and> conforming_step l = Some sv \<longrightarrow> sv \<in> set steps)"
proof -
  from assms have pl: "parse_lines (stdout er) [] None = (steps, fv, Some e)"
    by (auto simp: parse_def split: if_splits)
  from parse_lines_split [OF pl] obtain pre bad post where
    a: "stdout er = pre @ bad # post" and b: "parse_lines pre [] None = (steps, fv, None)"
    and c: "parse_lines [bad] steps fv = (steps, fv, Some e)" by blast
  have "\<forall>l sv. l \<in> set pre \<and> conforming_step l = Some sv \<longrightarrow> sv \<in> set steps"
    using parse_lines_keeps [OF b] by blast
  with a b c show ?thesis by blast
qed

theorem parse_error_keeps_partial_results_witness:
  "parse (clean_run [step_line 1 ''ok'' True, NotJson ''not-json'', step_line 2 ''later'' True]) =
     ([\<lparr>step_number = 1, description = ''ok'', verified = True\<rparr>], None,
      Some (JSONDecodeError ''not-json'')) \<and>
   (\<exists>pre bad post.
      stdout (clean_run [step_line 1 ''ok'' True, NotJson ''not-json'', step_line 2 ''later'' True]) =
        pre @ bad # post \<and>
      parse_lines pre [] None =
        ([\<lparr>step_number = 1, description = ''ok'', verified = True\<rparr>], None, None) \<and>
      parse_lines [bad] [\<lparr>step_number = 1, description = ''ok'', verified = True\<rparr>] None =
        ([\<lparr>step_number = 1, description = ''ok'', verified = True\<rparr>], None,
         Some (JSONDecodeError ''not-json'')) \<and>
      (\<forall>l sv. l \<in> set pre \<and> conforming_step l = Some sv \<longrightarrow>
         sv \<in> set [\<lparr>step_number = 1, description = ''ok'', verified = True\<rparr>]))"
  using parse_sample_broken parse_error_keeps_partial_results [OF parse_sample_broken]
  by (rule conjI)

lemma handle_data_JObj:
  "handle_data (JObj kvs) s v =
     (case map_of kvs ''step'' of
        Some st \<Rightarrow>
          (case map_of kvs ''verified'' of
             Some vf \<Rightarrow>
               if \<not> isinstance_int st \<or> \<not> isinstance_bool vf then Inr (s, v)
               else (case make_StepVerification st (dict_get kvs ''description'' (JStr [])) vf of
                       Inl e \<Rightarrow> Inl e
                     | Inr sv \<Rightarrow> Inr (s @ [sv], v))
           | None \<Rightarrow>
               (case map_of kvs ''final_answer_verified'' of
                  Some x \<Rightarrow> if isinstance_bool x then Inr (s, Some kvs) else Inr (s, v)
                | None \<Rightarrow> Inr (s, v)))
      | None \<Rightarrow>
          (case map_of kvs ''final_answer_verified'' of
             Some x \<Rightarrow> if isinstance_bool x then Inr (s, Some kvs) else Inr (s, v)
           | None \<Rightarrow> Inr (s, v)))"
  by (simp add: handle_data_def dict_get_def split: option.splits)

lemma handle_data_other:
  "\<forall>kvs. d \<noteq> JObj kvs \<Longrightarrow> handle_data d s v = Inr (s', v') \<Longrightarrow> s' = s \<and> v' = v"
  by (cases d) (auto simp: handle_data_def split: if_splits bool.splits)

lemma isinstance_bool_iff: "isinstance_bool x \<longleftrightarrow> (\<exists>b. x = JBool b)"
  by (cases x) simp_all

lemma isinstance_int_iff: "isinstance_int x \<longleftrightarrow> (\<exists>b. x = JBool b) \<or> (\<exists>n. x = JInt n)"
  by (cases x) simp_all

lemma verdict_kept:
  assumes "handle_data d s v = Inr (s', Some fv)"
  shows "v = Some fv \<or> (\<exists>b. map_of fv ''final_answer_verified'' = Some (JBool b))"
proof (cases "\<exists>kvs. d = JObj kvs")
  case False
  with handle_data_other [OF _ assms] show ?thesis by simp
next
  case True
  then obtain kvs where d: "d = JObj kvs" by blast
  from assms show ?thesis unfolding d handle_data_JObj
    by (auto simp: isinstance_bool_iff split: option.splits if_splits sum.splits)
qed


















section \<open>Properties of the executor\<close>






lemma execute_Unparsable:
  "execute ex (Unparsable e) p =
     Some (except_Exception [] [] e, restore_streams (sys_stdout p) (sys_stderr p) p)"
  by (simp add: execute_def)
























text \<open>With a timeout that does not fit, the same code is not run and the result reports
  \<^verbatim>\<open>OverflowError\<close>.\<close>

lemma timeout_overflow_is_not_a_timeout:
  "map_option (\<lambda>(out, p'). case out of Inl e \<Rightarrow> None | Inr r \<Rightarrow> exception_type r)
     (execute \<lparr>timeout = 2147483648, max_memory_mb = 512\<rparr> (Runs (Overruns [] [] []))
        fresh_process) =
     Some (Some ''OverflowError'')"
  by (simp add: execute_def Let_def except_Exception_def apply_resource_limits_def
      timeout_enter_def overflow_error_def fresh_process_def limit_allows_def plain_exc_def)

lemma apply_resource_limits_frame:
  "apply_resource_limits ex p = Inr (w, p') \<Longrightarrow>
     sys_stdout p' = sys_stdout p \<and> sys_stderr p' = sys_stderr p \<and>
     sigalrm_handler p' = sigalrm_handler p \<and> alarm_seconds p' = alarm_seconds p"
  by (auto simp: apply_resource_limits_def Let_def split: if_splits)

text \<open>What \<^verbatim>\<open>execute\<close> does put back: both streams and the signal handler.\<close>

lemma execute_restores_streams_and_handler:
  assumes "execute ex code p = Some (out, p')"
  shows "sys_stdout p' = sys_stdout p \<and> sys_stderr p' = sys_stderr p \<and>
         sigalrm_handler p' = sigalrm_handler p"
proof (cases code)
  case (Unparsable e)
  with assms show ?thesis by (auto simp: execute_Unparsable restore_streams_def)
next
  case (Runs r)
  let ?p1 = "p\<lparr>sys_stdout := StringIO_capture, sys_stderr := StringIO_capture\<rparr>"
  show ?thesis
  proof (cases "apply_resource_limits ex ?p1")
    case (Inl e)
    with assms Runs show ?thesis
      by (auto simp: execute_def Let_def restore_streams_def)
  next
    case (Inr q)
    obtain w p2 where q: "q = (w, p2)" by (cases q)
    from apply_resource_limits_frame [of ex ?p1 w p2] Inr q
    have h: "sigalrm_handler p2 = sigalrm_handler p" by simp
    from assms Runs Inr q h show ?thesis
      by (cases r)
         (auto simp: execute_def Let_def timeout_enter_def timeout_leave_def
            restore_streams_def split: if_splits)
  qed
qed

text \<open>
  C9 fails on the code: the address-space limit set by \<^verbatim>\<open>_apply_resource_limits\<close> is not
  put back. A process that starts without a limit has both its soft and its hard limit
  at 512 MiB after one call of \<^verbatim>\<open>execute\<close> on code that only returns.
\<close>

theorem execute_leaves_address_space_limit:
  "rlimit_as fresh_process = (None, None) \<and>
   map_option (\<lambda>(out, p'). rlimit_as p')
     (execute default_executor (Runs (Finishes [] [])) fresh_process) =
     Some (Some 536870912, Some 536870912)"
  by (simp add: execute_def Let_def apply_resource_limits_def timeout_enter_def
      timeout_leave_def restore_streams_def default_executor_def fresh_process_def
      limit_allows_def)

section \<open>Properties of the pipeline\<close>

lemma parse_lines_verdict_key:
  "parse_lines ls s v = (s', Some fv, pe) \<Longrightarrow>
     v = Some fv \<or> (\<exists>b. map_of fv ''final_answer_verified'' = Some (JBool b))"
proof (induction ls arbitrary: s v)
  case Nil
  then show ?case by simp
next
  case (Cons l ls)
  show ?case
  proof (cases l)
    case Blank
    with Cons show ?thesis by simp
  next
    case (NotJson m)
    with Cons show ?thesis by simp
  next
    case (Decoded d)
    show ?thesis
    proof (cases "handle_data d s v")
      case (Inl e)
      with Cons.prems Decoded show ?thesis by simp
    next
      case (Inr q)
      obtain s1 v1 where q: "q = (s1, v1)" by (cases q)
      from Cons.prems Decoded Inr q have "parse_lines ls s1 v1 = (s', Some fv, pe)" by simp
      from Cons.IH [OF this] have "v1 = Some fv \<or>
         (\<exists>b. map_of fv ''final_answer_verified'' = Some (JBool b))" .
      then show ?thesis
      proof
        assume "v1 = Some fv"
        with Inr q have "handle_data d s v = Inr (s1, Some fv)" by simp
        from verdict_kept [OF this] show ?thesis .
      next
        assume "\<exists>b. map_of fv ''final_answer_verified'' = Some (JBool b)"
        then show ?thesis by simp
      qed
    qed
  qed
qed

lemma parse_verdict_key:
  assumes "parse er = (steps, Some fv, pe)"
  shows "\<exists>b. map_of fv ''final_answer_verified'' = Some (JBool b)"
proof -
  from assms have "parse_lines (stdout er) [] None = (steps, Some fv, pe)"
    by (auto simp: parse_def split: if_splits)
  from parse_lines_verdict_key [OF this] show ?thesis by simp
qed

lemma parse_verdict_nonempty: "parse er = (steps, Some fv, pe) \<Longrightarrow> fv \<noteq> []"
  using parse_verdict_key by fastforce

lemma run_code_counts:
  assumes "run_code pl c w = Some (out, w')"
  shows "executions w' = executions w + 1 \<and> generations w' = generations w \<and>
         repairs w' = repairs w \<and> pipeline_runs w' = pipeline_runs w \<and>
         reasoning_repairs w' = reasoning_repairs w"
  using assms by (auto simp: run_code_def split: option.splits prod.splits)

lemma handle_codegen_fault_counts:
  assumes "handle_codegen_fault pl c er r x w = Some (out, w')"
  shows "repairs w' = repairs w + 1 \<and> generations w' = generations w \<and>
         executions w' \<le> executions w + 1 \<and> pipeline_runs w' = pipeline_runs w \<and>
         reasoning_repairs w' = reasoning_repairs w"
proof (cases "get_repaired_code pl (repairs w) r c (stderr er) x")
  case (Inl e)
  with assms show ?thesis by (auto simp: handle_codegen_fault_def Let_def)
next
  case (Inr c')
  show ?thesis
  proof (cases "run_code pl c' (w\<lparr>repairs := repairs w + 1\<rparr>)")
    case None
    with assms Inr show ?thesis by (simp add: handle_codegen_fault_def Let_def)
  next
    case (Some q)
    obtain o2 w2 where q: "q = (o2, w2)" by (cases q)
    from run_code_counts [of pl c' "w\<lparr>repairs := repairs w + 1\<rparr>" o2 w2] Some q
    have c: "executions w2 = executions w + 1 \<and> generations w2 = generations w \<and>
         repairs w2 = repairs w + 1 \<and> pipeline_runs w2 = pipeline_runs w \<and>
         reasoning_repairs w2 = reasoning_repairs w" by simp
    from assms Inr Some q have "w' = w2"
      by (auto simp: handle_codegen_fault_def Let_def
          split: sum.splits if_splits prod.splits option.splits)
    with c show ?thesis by simp
  qed
qed


lemma handle_codegen_fault_second_fault:
  assumes "get_repaired_code pl (repairs w) r c (stderr er) x = Inr c'"
    and "run_code pl c' (w\<lparr>repairs := repairs w + 1\<rparr>) = Some (Inr er', w3)"
    and "contract_fault er'"
  shows "handle_codegen_fault pl c er r x w =
           Some (Inr (create_failure_result r c [SYNTAX_ERROR]), w3)"
  using assms
  by (auto simp: handle_codegen_fault_def Let_def contract_fault_def
      split: prod.splits option.splits)

lemma handle_codegen_fault_clean:
  assumes "get_repaired_code pl (repairs w) r c (stderr er) x = Inr c'"
    and "run_code pl c' (w\<lparr>repairs := repairs w + 1\<rparr>) = Some (Inr er', w3)"
    and "success er'" and "parse er' = (steps, Some fv, None)"
  shows "handle_codegen_fault pl c er r x w =
           Some (Inr (create_final_result r c' er' steps fv
                   (if list_all verified steps \<and>
                       py_truthy (dict_get fv ''final_answer_verified'' JNull)
                    then ''verified'' else ''failed_reasoning'') True), w3)"
  using assms parse_verdict_nonempty [OF assms(4)]
  by (simp add: handle_codegen_fault_def Let_def)

lemma verify_fault:
  assumes "generate pl (generations w) r = Inr code"
    and "run_code pl code (started w) = Some (Inr er, w2)"
    and "contract_fault er"
  shows "verify pl r w = handle_codegen_fault pl code er r (extra_of er) w2"
proof (cases "success er")
  case False
  with assms show ?thesis by (simp add: verify_def Let_def started_def extra_of_def)
next
  case True
  obtain steps fv pe where p: "parse er = (steps, fv, pe)" by (cases "parse er") auto
  show ?thesis
  proof (cases pe)
    case (Some e)
    with assms True p show ?thesis
      by (simp add: verify_def Let_def started_def extra_of_def)
  next
    case None
    with assms(3) True p have "fv = None" by (simp add: contract_fault_def)
    with assms True p None show ?thesis
      by (simp add: verify_def Let_def started_def extra_of_def)
  qed
qed

lemma verify_clean:
  assumes "generate pl (generations w) r = Inr code"
    and "run_code pl code (started w) = Some (Inr er, w2)"
    and "success er" and "parse er = (steps, Some fv, None)"
  shows "verify pl r w =
           Some (Inr (create_final_result r code er steps fv
                   (if list_all verified steps \<and>
                       py_truthy (dict_get fv ''final_answer_verified'' (JBool False))
                    then ''verified'' else ''failed_reasoning'') False), w2)"
  using assms parse_verdict_nonempty [OF assms(4)]
  by (simp add: verify_def Let_def started_def)

lemma verify_counts:
  assumes "verify pl r w = Some (out, w')"
  shows "generations w' = generations w + 1 \<and> repairs w' \<le> repairs w + 1 \<and>
         executions w' \<le> executions w + 2 \<and> pipeline_runs w' = pipeline_runs w + 1 \<and>
         reasoning_repairs w' = reasoning_repairs w"
proof (cases "generate pl (generations w) r")
  case (Inl e)
  with assms show ?thesis by (auto simp: verify_def Let_def)
next
  case (Inr code)
  show ?thesis
  proof (cases "run_code pl code (started w)")
    case None
    with assms Inr show ?thesis by (simp add: verify_def Let_def started_def)
  next
    case (Some q)
    obtain o2 w2 where q: "q = (o2, w2)" by (cases q)
    from run_code_counts [of pl code "started w" o2 w2] Some q
    have c: "executions w2 = executions w + 1 \<and> generations w2 = generations w + 1 \<and>
         repairs w2 = repairs w \<and> pipeline_runs w2 = pipeline_runs w + 1 \<and>
         reasoning_repairs w2 = reasoning_repairs w" by (simp add: started_def)
    show ?thesis
    proof (cases o2)
      case (Inl e)
      with assms Inr Some q have "w' = w2" by (simp add: verify_def Let_def started_def)
      with c show ?thesis by simp
    next
      case er: (Inr er)
      show ?thesis
      proof (cases "contract_fault er")
        case True
        from verify_fault [OF Inr _ True, of w2] Some q er assms
        have "handle_codegen_fault pl code er r (extra_of er) w2 = Some (out, w')" by simp
        from handle_codegen_fault_counts [OF this] c show ?thesis by simp
      next
        case False
        then obtain steps fv where "success er" "parse er = (steps, Some fv, None)"
          by (cases "parse er") (auto simp: contract_fault_def)
        from verify_clean [OF Inr _ this, of w2] Some q er assms have "w' = w2" by simp
        with c show ?thesis by simp
      qed
    qed
  qed
qed



lemma execute_fresh_Finishes:
  "execute default_executor (Runs (Finishes ls [])) fresh_process =
     Some (Inr (clean_run ls), limited_process)"
  by (simp add: execute_def Let_def apply_resource_limits_def timeout_enter_def
      timeout_leave_def restore_streams_def default_executor_def fresh_process_def
      limited_process_def limit_allows_def clean_run_def)

lemma execute_limited_Finishes:
  "execute default_executor (Runs (Finishes ls [])) limited_process =
     Some (Inr (clean_run ls), limited_process)"
  by (simp add: execute_def Let_def apply_resource_limits_def timeout_enter_def
      timeout_leave_def restore_streams_def default_executor_def fresh_process_def
      limited_process_def limit_allows_def clean_run_def)

lemma run_code_scripted_first:
  "executions w = 0 \<Longrightarrow> proc w = fresh_process \<Longrightarrow>
     run_code (scripted_pipeline (Runs (Finishes ls [])) q) c w =
       Some (Inr (clean_run ls), w\<lparr>proc := limited_process, executions := 1\<rparr>)"
  by (simp add: run_code_def scripted_pipeline_def execute_fresh_Finishes)

lemma run_code_scripted_later:
  "executions w = 1 \<Longrightarrow> proc w = limited_process \<Longrightarrow>
     run_code (scripted_pipeline p (Runs (Finishes ls []))) c w =
       Some (Inr (clean_run ls), w\<lparr>proc := limited_process, executions := 2\<rparr>)"
  by (simp add: run_code_def scripted_pipeline_def execute_limited_Finishes)

lemma parse_sample_verified:
  "parse (clean_run [step_line 1 ''ok'' True, verdict_line True]) =
     ([\<lparr>step_number = 1, description = ''ok'', verified = True\<rparr>],
      Some [(''final_answer_verified'', JBool True), (''computed'', JStr ''4''),
            (''claimed'', JStr ''4'')], None)"
  by (simp add: parse_def clean_run_def step_line_def verdict_line_def handle_data_def)

lemma parse_sample_not_json:
  "parse (clean_run [NotJson ''not-json'']) = ([], None, Some (JSONDecodeError ''not-json''))"
  by (simp add: parse_def clean_run_def)

text \<open>
  C1. When the code that was run (the generated code, or the repaired code inside
  \<^verbatim>\<open>_handle_codegen_fault\<close>) executes successfully and its output parses without error
  to steps and a final verdict, the pipeline returns the status \<^verbatim>\<open>verified\<close> exactly when
  every parsed step is verified and the verdict's \<^verbatim>\<open>final_answer_verified\<close> is true, and
  \<^verbatim>\<open>failed_reasoning\<close> otherwise.
\<close>

theorem status_follows_steps_and_verdict:
  assumes "success er" and "parse er = (steps, Some fv, None)"
  shows "(generate pl (generations w) r = Inr code \<and>
          run_code pl code (started w) = Some (Inr er, w2) \<longrightarrow>
            (\<exists>res. verify pl r w = Some (Inr res, w2) \<and>
               status res =
                 (if list_all verified steps \<and>
                     map_of fv ''final_answer_verified'' = Some (JBool True)
                  then ''verified'' else ''failed_reasoning'') \<and>
               step_verifications res = steps \<and>
               answer_match res = map_of fv ''final_answer_verified'')) \<and>
         (get_repaired_code pl (repairs w) r code0 (stderr er0) x = Inr code \<and>
          run_code pl code (w\<lparr>repairs := repairs w + 1\<rparr>) = Some (Inr er, w2) \<longrightarrow>
            (\<exists>res. handle_codegen_fault pl code0 er0 r x w = Some (Inr res, w2) \<and>
               status res =
                 (if list_all verified steps \<and>
                     map_of fv ''final_answer_verified'' = Some (JBool True)
                  then ''verified'' else ''failed_reasoning'') \<and>
               step_verifications res = steps \<and>
               answer_match res = map_of fv ''final_answer_verified''))"
proof -
  from parse_verdict_key [OF assms(2)] obtain b where
    b: "map_of fv ''final_answer_verified'' = Some (JBool b)" by blast
  then have t: "py_truthy (dict_get fv ''final_answer_verified'' d) = b" for d
    by (simp add: dict_get_def)
  show ?thesis
  proof (intro conjI impI)
    assume "generate pl (generations w) r = Inr code \<and>
            run_code pl code (started w) = Some (Inr er, w2)"
    then have "verify pl r w =
        Some (Inr (create_final_result r code er steps fv
                (if list_all verified steps \<and>
                    py_truthy (dict_get fv ''final_answer_verified'' (JBool False))
                 then ''verified'' else ''failed_reasoning'') False), w2)"
      using verify_clean [OF _ _ assms] by simp
    with b t show "\<exists>res. verify pl r w = Some (Inr res, w2) \<and>
               status res =
                 (if list_all verified steps \<and>
                     map_of fv ''final_answer_verified'' = Some (JBool True)
                  then ''verified'' else ''failed_reasoning'') \<and>
               step_verifications res = steps \<and>
               answer_match res = map_of fv ''final_answer_verified''"
      by (simp add: create_final_result_def)
  next
    assume "get_repaired_code pl (repairs w) r code0 (stderr er0) x = Inr code \<and>
            run_code pl code (w\<lparr>repairs := repairs w + 1\<rparr>) = Some (Inr er, w2)"
    then have "handle_codegen_fault pl code0 er0 r x w =
        Some (Inr (create_final_result r code er steps fv
                (if list_all verified steps \<and>
                    py_truthy (dict_get fv ''final_answer_verified'' JNull)
                 then ''verified'' else ''failed_reasoning'') True), w2)"
      using handle_codegen_fault_clean [OF _ _ assms] by simp
    with b t show "\<exists>res. handle_codegen_fault pl code0 er0 r x w = Some (Inr res, w2) \<and>
               status res =
                 (if list_all verified steps \<and>
                     map_of fv ''final_answer_verified'' = Some (JBool True)
                  then ''verified'' else ''failed_reasoning'') \<and>
               step_verifications res = steps \<and>
               answer_match res = map_of fv ''final_answer_verified''"
      by (simp add: create_final_result_def)
  qed
qed

theorem status_follows_steps_and_verdict_witness:
  "success (clean_run [step_line 1 ''ok'' True, verdict_line True]) \<and>
   parse (clean_run [step_line 1 ''ok'' True, verdict_line True]) =
     ([\<lparr>step_number = 1, description = ''ok'', verified = True\<rparr>],
      Some [(''final_answer_verified'', JBool True), (''computed'', JStr ''4''),
            (''claimed'', JStr ''4'')], None) \<and>
   (\<exists>res. verify (scripted_pipeline (Runs (Finishes [step_line 1 ''ok'' True, verdict_line True] []))
              (Runs Diverges)) sample_reasoning fresh_world =
        Some (Inr res, (started fresh_world)\<lparr>proc := limited_process, executions := 1\<rparr>) \<and>
      status res = ''verified'' \<and>
      step_verifications res = [\<lparr>step_number = 1, description = ''ok'', verified = True\<rparr>] \<and>
      answer_match res = Some (JBool True))"
proof -
  let ?ls = "[step_line 1 ''ok'' True, verdict_line True]"
  let ?pl = "scripted_pipeline (Runs (Finishes ?ls [])) (Runs Diverges)"
  have ok: "success (clean_run ?ls)" by (simp add: clean_run_def)
  have run: "generate ?pl (generations fresh_world) sample_reasoning = Inr ''generated'' \<and>
        run_code ?pl ''generated'' (started fresh_world) =
          Some (Inr (clean_run ?ls), (started fresh_world)\<lparr>proc := limited_process, executions := 1\<rparr>)"
    by (simp add: run_code_scripted_first started_def fresh_world_def)
       (simp add: scripted_pipeline_def)
  from status_follows_steps_and_verdict [OF ok parse_sample_verified, THEN conjunct1, THEN mp,
      OF run]
  show ?thesis using ok parse_sample_verified by simp
qed

text \<open>
  C2. Whenever \<^verbatim>\<open>verify\<close> returns, it has made exactly one call of the code generator, at
  most one repair call (so at most two code generations) and at most two sandbox
  executions. When the first run violates the contract and the repaired code, run once,
  also fails or violates the contract, \<^verbatim>\<open>verify\<close> returns the status \<^verbatim>\<open>failed_pipeline\<close>
  after that one repair and those two executions.
\<close>

theorem verify_repairs_at_most_once:
  "(\<forall>out w'. verify pl r w = Some (out, w') \<longrightarrow>
      generations w' = generations w + 1 \<and> repairs w' \<le> repairs w + 1 \<and>
      generations w' + repairs w' \<le> generations w + repairs w + 2 \<and>
      executions w' \<le> executions w + 2) \<and>
   (\<forall>code er w2 code' er' w3.
      generate pl (generations w) r = Inr code \<and>
      run_code pl code (started w) = Some (Inr er, w2) \<and> contract_fault er \<and>
      get_repaired_code pl (repairs w2) r code (stderr er) (extra_of er) = Inr code' \<and>
      run_code pl code' (w2\<lparr>repairs := repairs w2 + 1\<rparr>) = Some (Inr er', w3) \<and>
      contract_fault er' \<longrightarrow>
        (\<exists>res. verify pl r w = Some (Inr res, w3) \<and> status res = ''failed_pipeline'') \<and>
        generations w3 = generations w + 1 \<and> repairs w3 = repairs w + 1 \<and>
        executions w3 = executions w + 2)"
proof (rule conjI)
  show "\<forall>out w'. verify pl r w = Some (out, w') \<longrightarrow>
      generations w' = generations w + 1 \<and> repairs w' \<le> repairs w + 1 \<and>
      generations w' + repairs w' \<le> generations w + repairs w + 2 \<and>
      executions w' \<le> executions w + 2"
  proof (intro allI impI)
    fix out w'
    assume v: "verify pl r w = Some (out, w')"
    from verify_counts [OF v]
    show "generations w' = generations w + 1 \<and> repairs w' \<le> repairs w + 1 \<and>
        generations w' + repairs w' \<le> generations w + repairs w + 2 \<and>
        executions w' \<le> executions w + 2" by simp
  qed
next
  show "\<forall>code er w2 code' er' w3.
      generate pl (generations w) r = Inr code \<and>
      run_code pl code (started w) = Some (Inr er, w2) \<and> contract_fault er \<and>
      get_repaired_code pl (repairs w2) r code (stderr er) (extra_of er) = Inr code' \<and>
      run_code pl code' (w2\<lparr>repairs := repairs w2 + 1\<rparr>) = Some (Inr er', w3) \<and>
      contract_fault er' \<longrightarrow>
        (\<exists>res. verify pl r w = Some (Inr res, w3) \<and> status res = ''failed_pipeline'') \<and>
        generations w3 = generations w + 1 \<and> repairs w3 = repairs w + 1 \<and>
        executions w3 = executions w + 2"
  proof (intro allI impI)
    fix code er w2 code' er' w3
    assume h: "generate pl (generations w) r = Inr code \<and>
        run_code pl code (started w) = Some (Inr er, w2) \<and> contract_fault er \<and>
        get_repaired_code pl (repairs w2) r code (stderr er) (extra_of er) = Inr code' \<and>
        run_code pl code' (w2\<lparr>repairs := repairs w2 + 1\<rparr>) = Some (Inr er', w3) \<and>
        contract_fault er'"
    then have g: "generate pl (generations w) r = Inr code"
      and r1: "run_code pl code (started w) = Some (Inr er, w2)" and f1: "contract_fault er"
      and g2: "get_repaired_code pl (repairs w2) r code (stderr er) (extra_of er) = Inr code'"
      and r2: "run_code pl code' (w2\<lparr>repairs := repairs w2 + 1\<rparr>) = Some (Inr er', w3)"
      and f2: "contract_fault er'" by simp_all
    have "verify pl r w = handle_codegen_fault pl code er r (extra_of er) w2"
      by (rule verify_fault [OF g r1 f1])
    also have "\<dots> = Some (Inr (create_failure_result r code [SYNTAX_ERROR]), w3)"
      by (rule handle_codegen_fault_second_fault [OF g2 r2 f2])
    finally have "verify pl r w =
        Some (Inr (create_failure_result r code [SYNTAX_ERROR]), w3)" .
    then have a: "\<exists>res. verify pl r w = Some (Inr res, w3) \<and> status res = ''failed_pipeline''"
      by (simp add: create_failure_result_def)
    from run_code_counts [OF r1] run_code_counts [OF r2]
    have b: "generations w3 = generations w + 1 \<and> repairs w3 = repairs w + 1 \<and>
      executions w3 = executions w + 2"
      by (simp add: started_def)
    from a b show "(\<exists>res. verify pl r w = Some (Inr res, w3) \<and> status res = ''failed_pipeline'') \<and>
        generations w3 = generations w + 1 \<and> repairs w3 = repairs w + 1 \<and>
        executions w3 = executions w + 2" by blast
  qed
qed

lemma contract_fault_not_json: "contract_fault (clean_run [NotJson ''not-json''])"
  by (simp add: contract_fault_def parse_sample_not_json)

theorem verify_repairs_at_most_once_witness:
  "\<exists>res w3.
      verify (scripted_pipeline (Runs (Finishes [NotJson ''not-json''] []))
                (Runs (Finishes [NotJson ''not-json''] []))) sample_reasoning fresh_world =
        Some (Inr res, w3) \<and>
      status res = ''failed_pipeline'' \<and> generations w3 = 1 \<and> repairs w3 = 1 \<and>
      executions w3 = 2"
proof -
  let ?bad = "Runs (Finishes [NotJson ''not-json''] [])"
  let ?pl = "scripted_pipeline ?bad ?bad"
  let ?er = "clean_run [NotJson ''not-json'']"
  let ?w2 = "(started fresh_world)\<lparr>proc := limited_process, executions := 1\<rparr>"
  let ?w3 = "(?w2\<lparr>repairs := repairs ?w2 + 1\<rparr>)\<lparr>proc := limited_process, executions := 2\<rparr>"
  have g: "generate ?pl (generations fresh_world) sample_reasoning = Inr ''generated''"
    by (simp add: scripted_pipeline_def)
  have r1: "run_code ?pl ''generated'' (started fresh_world) = Some (Inr ?er, ?w2)"
    by (simp add: run_code_scripted_first started_def fresh_world_def)
  have g2: "get_repaired_code ?pl (repairs ?w2) sample_reasoning ''generated'' (stderr ?er)
              (extra_of ?er) = Inr ''repaired''"
    by (simp add: scripted_pipeline_def)
  have r2: "run_code ?pl ''repaired'' (?w2\<lparr>repairs := repairs ?w2 + 1\<rparr>) = Some (Inr ?er, ?w3)"
    by (simp add: run_code_scripted_later)
  from g r1 g2 r2 contract_fault_not_json
  have "generate ?pl (generations fresh_world) sample_reasoning = Inr ''generated'' \<and>
      run_code ?pl ''generated'' (started fresh_world) = Some (Inr ?er, ?w2) \<and>
      contract_fault ?er \<and>
      get_repaired_code ?pl (repairs ?w2) sample_reasoning ''generated'' (stderr ?er)
        (extra_of ?er) = Inr ''repaired'' \<and>
      run_code ?pl ''repaired'' (?w2\<lparr>repairs := repairs ?w2 + 1\<rparr>) = Some (Inr ?er, ?w3) \<and>
      contract_fault ?er" by simp
  from verify_repairs_at_most_once [THEN conjunct2, rule_format, OF this]
  have "(\<exists>res. verify ?pl sample_reasoning fresh_world = Some (Inr res, ?w3) \<and>
            status res = ''failed_pipeline'') \<and>
        generations ?w3 = generations fresh_world + 1 \<and>
        repairs ?w3 = repairs fresh_world + 1 \<and>
        executions ?w3 = executions fresh_world + 2" .
  then obtain res where "verify ?pl sample_reasoning fresh_world = Some (Inr res, ?w3)"
    "status res = ''failed_pipeline''" "generations ?w3 = 1" "repairs ?w3 = 1"
    "executions ?w3 = 2"
    by (auto simp: fresh_world_def started_def)
  then show ?thesis by blast
qed



section \<open>Properties of the confidence score and of the orchestrator\<close>


lemma quantum_down_numeral:
  "quantum_down (numeral k) q x =
     (if q * 2 ^ 52 \<le> x then q else quantum_down (pred_numeral k) (q / 2) x)"
  by (simp add: numeral_eq_Suc)







lemma count_verified_replicate:
  "count_verified (replicate m s @ steps) =
     (if verified s then int m else 0) + count_verified steps"
  by (induction m) simp_all

text \<open>
  Seven of forty steps verified and a false verdict: the exact value \<open>0.54375\<close> lies
  half way between two multiples of \<open>1/10000\<close>, the sum of doubles lies just below it,
  and the confidence is the double nearest to \<open>0.5437\<close>.
\<close>

lemma confidence_seven_of_forty:
  "calculate_confidence (clean_run [])
     (replicate 7 \<lparr>step_number = 1, description = [], verified = True\<rparr> @
      replicate 33 \<lparr>step_number = 2, description = [], verified = False\<rparr>)
     (Some [(''final_answer_verified'', JBool False)]) = to_double (5437 / 10000) \<and>
   to_double (5437 / 10000) = 4897214234802677 / 2 ^ 53"
proof -
  have r1: "to_double (7 / 40) = 6305039478318694 / 2 ^ 55"
    by (simp add: to_double_def quantum_def quantum_down_numeral py_round_int_def Let_def)
  have r2: "to_double (6305039478318694 / 2 ^ 55 * (1 / 4)) = 6305039478318694 / 2 ^ 57"
    by (simp add: to_double_def quantum_def quantum_down_numeral py_round_int_def Let_def)
  have r3: "to_double (1 / 2 + 6305039478318694 / 2 ^ 57) = 2448832297382707 / 2 ^ 52"
    by (simp add: to_double_def quantum_def quantum_down_numeral py_round_int_def Let_def)
  have r4: "py_round_int (2448832297382707 / 2 ^ 52 * 10000) = 5437"
    by (simp add: py_round_int_def Let_def)
  have r5: "to_double (5437 / 10000) = 4897214234802677 / 2 ^ 53"
    by (simp add: to_double_def quantum_def quantum_down_numeral py_round_int_def Let_def)
  have cnt: "count_verified
     (replicate 7 \<lparr>step_number = 1, description = [], verified = True\<rparr> @
      replicate 33 \<lparr>step_number = 2, description = [], verified = False\<rparr>) = 7"
    using count_verified_replicate [of 33 "\<lparr>step_number = 2, description = [], verified = False\<rparr>" "[]"]
    by (simp add: count_verified_replicate)
  have e: "calculate_confidence (clean_run [])
     (replicate 7 \<lparr>step_number = 1, description = [], verified = True\<rparr> @
      replicate 33 \<lparr>step_number = 2, description = [], verified = False\<rparr>)
     (Some [(''final_answer_verified'', JBool False)]) =
     py_round4 (max 0 (min 1 (to_double (1 / 2 + to_double (to_double (7 / 40) * (1 / 4))))))"
    by (simp add: calculate_confidence_def Let_def clean_run_def dict_get_def cnt)
  have f: "to_double (1 / 2 + to_double (to_double (7 / 40) * (1 / 4))) =
      2448832297382707 / 2 ^ 52"
    by (simp only: r1 r2 r3)
  have g: "max 0 (min 1 (2448832297382707 / 2 ^ 52 :: real)) = 2448832297382707 / 2 ^ 52"
    by simp
  have h: "py_round4 (2448832297382707 / 2 ^ 52) = to_double (5437 / 10000)"
    by (simp only: py_round4_def r4) simp
  have "calculate_confidence (clean_run [])
     (replicate 7 \<lparr>step_number = 1, description = [], verified = True\<rparr> @
      replicate 33 \<lparr>step_number = 2, description = [], verified = False\<rparr>)
     (Some [(''final_answer_verified'', JBool False)]) = to_double (5437 / 10000)"
    by (simp only: e f g h)
  then show ?thesis using r5 by (rule conjI)
qed

lemma parse_sample_half:
  "parse (clean_run [step_line 1 ''ok'' True, step_line 2 ''wrong'' False, verdict_line True]) =
     ([\<lparr>step_number = 1, description = ''ok'', verified = True\<rparr>,
       \<lparr>step_number = 2, description = ''wrong'', verified = False\<rparr>],
      Some [(''final_answer_verified'', JBool True), (''computed'', JStr ''4''),
            (''claimed'', JStr ''4'')], None)"
  by (simp add: parse_def clean_run_def step_line_def verdict_line_def handle_data_def)


lemma parse_sample_mismatch:
  "parse (clean_run [verdict_line False]) =
     ([], Some [(''final_answer_verified'', JBool False), (''computed'', JStr ''4''),
                (''claimed'', JStr ''4'')], None)"
  by (simp add: parse_def clean_run_def verdict_line_def handle_data_def)

text \<open>
  C8. With \<^verbatim>\<open>max_reasoning_attempts == 0\<close>, \<^verbatim>\<open>verify_with_repair\<close> is one run of the pipeline
  on the given artifact: it returns what that run returns, with an empty repair history,
  whatever the status; it counts one pipeline run and no reasoning repair.
\<close>

theorem no_attempts_is_one_pipeline_run:
  "verify_with_repair orch r 0 w =
     (case verify (verification_pipeline orch) r w of
        None \<Rightarrow> None
      | Some (Inl e, w') \<Rightarrow> Some (Inl e, w')
      | Some (Inr vr, w') \<Rightarrow> Some (Inr (vr, []), w')) \<and>
   (\<forall>out w'. verify_with_repair orch r 0 w = Some (out, w') \<longrightarrow>
      pipeline_runs w' = pipeline_runs w + 1 \<and> reasoning_repairs w' = reasoning_repairs w \<and>
      (\<forall>vr h. out = Inr (vr, h) \<longrightarrow> h = []))"
proof -
  have eq: "verify_with_repair orch r 0 w =
     (case verify (verification_pipeline orch) r w of
        None \<Rightarrow> None
      | Some (Inl e, w') \<Rightarrow> Some (Inl e, w')
      | Some (Inr vr, w') \<Rightarrow> Some (Inr (vr, []), w'))"
    by (simp add: verify_with_repair_def repair_block_def after_loop_def
        split: option.splits sum.splits prod.splits)
  have "\<forall>out w'. verify_with_repair orch r 0 w = Some (out, w') \<longrightarrow>
      pipeline_runs w' = pipeline_runs w + 1 \<and> reasoning_repairs w' = reasoning_repairs w \<and>
      (\<forall>vr h. out = Inr (vr, h) \<longrightarrow> h = [])"
  proof (intro allI impI)
    fix out w'
    assume a: "verify_with_repair orch r 0 w = Some (out, w')"
    then obtain o2 where v: "verify (verification_pipeline orch) r w = Some (o2, w')"
      and o: "out = (case o2 of Inl e \<Rightarrow> Inl e | Inr vr \<Rightarrow> Inr (vr, []))"
      unfolding eq by (auto split: option.splits sum.splits prod.splits)
    from verify_counts [OF v] o
    show "pipeline_runs w' = pipeline_runs w + 1 \<and>
      reasoning_repairs w' = reasoning_repairs w \<and>
      (\<forall>vr h. out = Inr (vr, h) \<longrightarrow> h = [])"
      by (auto split: sum.splits)
  qed
  with eq show ?thesis by blast
qed

theorem no_attempts_is_one_pipeline_run_witness:
  "\<exists>vr w'. verify_with_repair
              (sample_orchestrator (Runs (Finishes [verdict_line False] [])) (Runs Diverges))
              sample_reasoning 0 fresh_world = Some (Inr (vr, []), w') \<and>
            status vr = ''failed_reasoning'' \<and> pipeline_runs w' = 1 \<and>
            reasoning_repairs w' = 0"
proof -
  let ?orch = "sample_orchestrator (Runs (Finishes [verdict_line False] [])) (Runs Diverges)"
  let ?pl = "scripted_pipeline (Runs (Finishes [verdict_line False] [])) (Runs Diverges)"
  let ?er = "clean_run [verdict_line False]"
  let ?w2 = "(started fresh_world)\<lparr>proc := limited_process, executions := 1\<rparr>"
  have pl: "verification_pipeline ?orch = ?pl" by (simp add: sample_orchestrator_def)
  have g: "generate ?pl (generations fresh_world) sample_reasoning = Inr ''generated''"
    by (simp add: scripted_pipeline_def)
  have r1: "run_code ?pl ''generated'' (started fresh_world) = Some (Inr ?er, ?w2)"
    by (simp add: run_code_scripted_first started_def fresh_world_def)
  have ok: "success ?er" by (simp add: clean_run_def)
  from verify_clean [OF g r1 ok parse_sample_mismatch]
  obtain vr where v: "verify ?pl sample_reasoning fresh_world = Some (Inr vr, ?w2)"
    and s: "status vr = ''failed_reasoning''"
    by (simp add: create_final_result_def dict_get_def)
  from no_attempts_is_one_pipeline_run [of ?orch sample_reasoning fresh_world] v pl
  have "verify_with_repair ?orch sample_reasoning 0 fresh_world = Some (Inr (vr, []), ?w2)"
    by simp
  moreover have "pipeline_runs ?w2 = 1" "reasoning_repairs ?w2 = 0"
    by (simp_all add: started_def fresh_world_def)
  ultimately show ?thesis using s by blast
qed


end
